theory Spec2Isabelle
  imports Complex_Main
begin

section \<open>JavaScript values\<close>

text \<open>
  The values that \<open>JSON.parse\<close> and \<open>response.json()\<close> produce, and that the two fields of
  a Result hold. A JavaScript string is modelled as a \<open>string\<close>, a number as a real.
  An object is the list of its own properties.
\<close>

datatype json =
    JNull
  | JBool bool
  | JNum real
  | JStr string
  | JArr "json list"
  | JObj "(string \<times> json) list"

text \<open>An exception is modelled by its \<open>message\<close>, the only part of it the code reads.\<close>

type_synonym exn = string

text \<open>
  Truthiness, as \<open>||\<close>, \<open>&&\<close> and \<open>if\<close> test it: \<open>null\<close>, \<open>false\<close>, \<open>0\<close> and the empty
  string are falsy, every object and array is truthy.
\<close>

fun truthy :: "json \<Rightarrow> bool" where
  "truthy JNull = False"
| "truthy (JBool b) = b"
| "truthy (JNum n) = (n \<noteq> 0)"
| "truthy (JStr s) = (s \<noteq> [])"
| "truthy (JArr xs) = True"
| "truthy (JObj kvs) = True"

text \<open>
  The message of the TypeError that reading a property of \<open>null\<close> throws (the wording of
  V8; the wording differs between engines).
\<close>

definition null_property_message :: "string \<Rightarrow> exn" where
  "null_property_message p = ''Cannot read properties of null (reading '' @ [CHR 0x27] @ p @ [CHR 0x27] @ '')''"

text \<open>
  \<open>v.p\<close> for a property name \<open>p\<close> that no prototype defines (the code reads \<open>error\<close>,
  \<open>message\<close>, \<open>detail\<close>, \<open>status\<close> and \<open>qdrant_connected\<close>): reading from \<open>null\<close>
  throws, an object yields its own property, and \<open>None\<close> stands for \<open>undefined\<close>, which
  is also what a boolean, a number, a string or an array yields.
\<close>

fun get_prop :: "json \<Rightarrow> string \<Rightarrow> exn + json option" where
  "get_prop JNull p = Inl (null_property_message p)"
| "get_prop (JObj kvs) p = Inr (map_of kvs p)"
| "get_prop v p = Inr None"

text \<open>Truthiness of a value that may be \<open>undefined\<close>.\<close>

fun truthy_opt :: "json option \<Rightarrow> bool" where
  "truthy_opt None = False"
| "truthy_opt (Some v) = truthy v"

text \<open>
  \<open>a || rest\<close> where \<open>a\<close> may be \<open>undefined\<close> and evaluating \<open>rest\<close> may throw: \<open>a\<close>
  when it is truthy, otherwise whatever \<open>rest\<close> gives.
\<close>

fun js_or :: "json option \<Rightarrow> exn + json \<Rightarrow> exn + json" where
  "js_or None rest = rest"
| "js_or (Some v) rest = (if truthy v then Inr v else rest)"

text \<open>Sequencing of steps that may throw.\<close>

fun and_then :: "exn + 'a \<Rightarrow> ('a \<Rightarrow> exn + 'b) \<Rightarrow> exn + 'b" where
  "and_then (Inl e) f = Inl e"
| "and_then (Inr x) f = f x"

text \<open>\<open>s || d\<close> for a string \<open>s\<close>: the empty string is falsy.\<close>

definition str_or :: "string \<Rightarrow> string \<Rightarrow> string" where
  "str_or s d = (if s \<noteq> [] then s else d)"

text \<open>\<open>s.includes(t)\<close>: \<open>t\<close> occurs in \<open>s\<close> as a contiguous run.\<close>

fun str_includes :: "string \<Rightarrow> string \<Rightarrow> bool" where
  "str_includes [] t = (t = [])"
| "str_includes (c # cs) t = (take (length t) (c # cs) = t \<or> str_includes cs t)"

text \<open>The decimal rendering of a natural number, as a template literal interpolates it.\<close>

definition digit_char :: "nat \<Rightarrow> char" where
  "digit_char d = ''0123456789'' ! d"

fun string_of_nat :: "nat \<Rightarrow> string" where
  "string_of_nat n = (if n < 10 then [digit_char n] else string_of_nat (n div 10) @ [digit_char (n mod 10)])"

declare string_of_nat.simps [simp del]

section \<open>The transport\<close>

text \<open>
  The init object that \<open>fetch\<close> receives, with the url. \<open>body_json\<close> is the value whose
  \<open>JSON.stringify\<close> text is the request body.
\<close>

record options =
  http_method :: string
  headers :: "(string \<times> string) list"
  body_json :: "json option"

record http_request = options +
  url :: string

text \<open>What one \<open>reader.read()\<close> settles with; a value is given as the text that
  \<open>decoder.decode(value, {stream: true})\<close> returns for it.\<close>

datatype read_outcome = ReadDone | ReadValue string | ReadFails exn

text \<open>
  A Response as the code sees it: the status line, \<open>headers.get('content-type')\<close>, what
  \<open>text()\<close> and \<open>json()\<close> settle with (\<open>Inl\<close> is a rejection), and the body stream
  (\<open>None\<close> is a \<open>null\<close> body), whose \<open>k\<close>-th read settles with \<open>body k\<close>.
\<close>

record response =
  status :: nat
  statusText :: string
  content_type :: "string option"
  text_result :: "exn + string"
  json_result :: "exn + json"
  body :: "(nat \<Rightarrow> read_outcome) option"

definition ok :: "response \<Rightarrow> bool" where
  "ok r = (200 \<le> status r \<and> status r \<le> 299)"

text \<open>
  The network: \<open>respond k req\<close> is what \<open>fetch\<close> settles with for the request \<open>req\<close>
  made after \<open>k\<close> earlier ones (\<open>Inl\<close> is a rejection), and \<open>sent\<close> records the requests
  made so far.
\<close>

record net =
  respond :: "nat \<Rightarrow> http_request \<Rightarrow> exn + response"
  sent :: "http_request list"

definition fetch :: "http_request \<Rightarrow> net \<Rightarrow> (exn + response) \<times> net" where
  "fetch req n = (respond n (length (sent n)) req, n\<lparr>sent := sent n @ [req]\<rparr>)"

section \<open>The API client\<close>

record result =
  data :: json
  error :: json

text \<open>The fallback message \<open>HTTP ${response.status}: ${response.statusText}\<close>.\<close>

definition http_message :: "response \<Rightarrow> string" where
  "http_message r = ''HTTP '' @ string_of_nat (status r) @ '': '' @ statusText r"

text \<open>
  \<open>data.error || data.message || data.detail || fallback\<close>: the first truthy one of the
  three properties, the fallback when none is; the first read throws when \<open>data\<close> is
  \<open>null\<close>.
\<close>

definition error_field :: "json \<Rightarrow> string \<Rightarrow> exn + json" where
  "error_field d fallback =
     and_then (get_prop d ''error'') (\<lambda>v1. js_or v1
       (and_then (get_prop d ''message'') (\<lambda>v2. js_or v2
         (and_then (get_prop d ''detail'') (\<lambda>v3. js_or v3
           (Inr (JStr fallback)))))))"

text \<open>
  The test \<open>contentType && !contentType.includes('application/json')\<close>: an absent header
  (\<open>null\<close>) and an empty one are falsy.
\<close>

definition non_json_content_type :: "response \<Rightarrow> bool" where
  "non_json_content_type r =
     (case content_type r of
        None \<Rightarrow> False
      | Some ct \<Rightarrow> ct \<noteq> [] \<and> \<not> str_includes ct ''application/json'')"

text \<open>The body of the \<open>try\<close> block of \<open>request\<close>, after \<open>fetch\<close> has settled.\<close>

definition request_try :: "exn + response \<Rightarrow> exn + result" where
  "request_try out =
     (case out of
        Inl e \<Rightarrow> Inl e
      | Inr r \<Rightarrow>
          if non_json_content_type r
          then (case text_result r of
                  Inl e \<Rightarrow> Inl e
                | Inr t \<Rightarrow>
                    if \<not> ok r then Inr \<lparr>data = JNull, error = JStr (str_or t (http_message r))\<rparr>
                    else Inr \<lparr>data = JStr t, error = JNull\<rparr>)
          else (case json_result r of
                  Inl e \<Rightarrow> Inl e
                | Inr d \<Rightarrow>
                    if \<not> ok r then
                      (case error_field d (http_message r) of
                         Inl e \<Rightarrow> Inl e
                       | Inr m \<Rightarrow> Inr \<lparr>data = JNull, error = m\<rparr>)
                    else Inr \<lparr>data = d, error = JNull\<rparr>))"

text \<open>
  \<open>request(endpoint, options)\<close>: the \<open>try\<close> block, and the \<open>catch\<close> that turns whatever
  was thrown into a Result.
\<close>

definition request :: "string \<Rightarrow> string \<Rightarrow> options \<Rightarrow> net \<Rightarrow> result \<times> net" where
  "request baseURL endpoint opts n =
     (let (out, n') = fetch (options.extend opts (http_request.fields (baseURL @ endpoint))) n
      in (case request_try out of
            Inl e \<Rightarrow> \<lparr>data = JNull, error = JStr (str_or e ''Network error. Please check your connection.'')\<rparr>
          | Inr res \<Rightarrow> res,
          n'))"

text \<open>The thin wrappers: a fixed endpoint and fixed options each.\<close>

definition getCollectionInfo :: "string \<Rightarrow> net \<Rightarrow> result \<times> net" where
  "getCollectionInfo baseURL =
     request baseURL ''/documents/info'' \<lparr>http_method = ''GET'', headers = [], body_json = None\<rparr>"

definition deleteCollection :: "string \<Rightarrow> net \<Rightarrow> result \<times> net" where
  "deleteCollection baseURL =
     request baseURL ''/documents/collection'' \<lparr>http_method = ''DELETE'', headers = [], body_json = None\<rparr>"

definition query :: "string \<Rightarrow> string \<Rightarrow> bool \<Rightarrow> bool \<Rightarrow> net \<Rightarrow> result \<times> net" where
  "query baseURL question includeSources enableEvaluation =
     request baseURL ''/query''
       \<lparr>http_method = ''POST'',
        headers = [(''Content-Type'', ''application/json'')],
        body_json = Some (JObj [(''question'', JStr question),
                                (''include_sources'', JBool includeSources),
                                (''enable_evaluation'', JBool enableEvaluation)])\<rparr>"

definition searchDocuments :: "string \<Rightarrow> string \<Rightarrow> net \<Rightarrow> result \<times> net" where
  "searchDocuments baseURL question =
     request baseURL ''/query/search''
       \<lparr>http_method = ''POST'',
        headers = [(''Content-Type'', ''application/json'')],
        body_json = Some (JObj [(''question'', JStr question)])\<rparr>"

definition healthCheck :: "string \<Rightarrow> net \<Rightarrow> result \<times> net" where
  "healthCheck baseURL =
     request baseURL ''/health'' \<lparr>http_method = ''GET'', headers = [], body_json = None\<rparr>"

definition readinessCheck :: "string \<Rightarrow> net \<Rightarrow> result \<times> net" where
  "readinessCheck baseURL =
     request baseURL ''/health/ready'' \<lparr>http_method = ''GET'', headers = [], body_json = None\<rparr>"

subsection \<open>The streaming query\<close>

text \<open>
  The \<open>onChunk\<close> callback works on a state of its own and may throw. The loop of
  \<open>queryStream\<close> runs for as long as the stream delivers values, so it may not return:
  \<open>None\<close> is that case. Besides the text accumulated so far the loop carries the
  callback's state and the list of the strings handed to the callback, in order.
  The loop ends with \<open>Inr fullText\<close> at the end of the stream and with \<open>Inl e\<close> when
  a read or the callback throws.
\<close>

type_synonym 's callback = "string \<Rightarrow> 's \<Rightarrow> exn option \<times> 's"

partial_function (option) read_loop ::
  "(nat \<Rightarrow> read_outcome) \<Rightarrow> 's callback option \<Rightarrow> nat \<Rightarrow> string \<Rightarrow> 's \<Rightarrow> string list
     \<Rightarrow> ((exn + string) \<times> 's \<times> string list) option" where
  "read_loop reader onChunk k fullText st calls =
     (case reader k of
        ReadDone \<Rightarrow> Some (Inr fullText, st, calls)
      | ReadFails e \<Rightarrow> Some (Inl e, st, calls)
      | ReadValue chunk \<Rightarrow>
          (case onChunk of
             None \<Rightarrow> read_loop reader onChunk (Suc k) (fullText @ chunk) st calls
           | Some f \<Rightarrow>
               (case f chunk st of
                  (Some e, st') \<Rightarrow> Some (Inl e, st', calls @ [chunk])
                | (None, st') \<Rightarrow>
                    read_loop reader onChunk (Suc k) (fullText @ chunk) st' (calls @ [chunk]))))"

text \<open>The body of the \<open>try\<close> block of \<open>queryStream\<close>, after \<open>fetch\<close> has settled.\<close>

definition queryStream_try ::
  "exn + response \<Rightarrow> 's callback option \<Rightarrow> 's \<Rightarrow> ((exn + result) \<times> 's \<times> string list) option" where
  "queryStream_try out onChunk st =
     (case out of
        Inl e \<Rightarrow> Some (Inl e, st, [])
      | Inr r \<Rightarrow>
          if \<not> ok r then
            (case text_result r of
               Inl e \<Rightarrow> Some (Inl e, st, [])
             | Inr errorText \<Rightarrow>
                 Some (Inr \<lparr>data = JNull, error = JStr (str_or errorText (http_message r))\<rparr>, st, []))
          else
            (case body r of
               None \<Rightarrow> Some (Inl (null_property_message ''getReader''), st, [])
             | Some reader \<Rightarrow>
                 (case read_loop reader onChunk 0 [] st [] of
                    None \<Rightarrow> None
                  | Some (Inl e, st', calls) \<Rightarrow> Some (Inl e, st', calls)
                  | Some (Inr fullText, st', calls) \<Rightarrow>
                      Some (Inr \<lparr>data = JStr fullText, error = JNull\<rparr>, st', calls))))"

text \<open>The request that \<open>queryStream\<close> hands to \<open>fetch\<close>.\<close>

definition stream_request :: "string \<Rightarrow> string \<Rightarrow> http_request" where
  "stream_request baseURL question =
     \<lparr>http_method = ''POST'',
      headers = [(''Content-Type'', ''application/json'')],
      body_json = Some (JObj [(''question'', JStr question),
                              (''include_sources'', JBool False),
                              (''enable_evaluation'', JBool False)]),
      url = baseURL @ ''/query/stream''\<rparr>"

text \<open>
  \<open>queryStream(question, onChunk)\<close>. The value is \<open>None\<close> when the call does not return,
  otherwise the Result, the callback's final state and the strings the callback was
  called with.
\<close>

definition queryStream ::
  "string \<Rightarrow> string \<Rightarrow> 's callback option \<Rightarrow> 's \<Rightarrow> net
     \<Rightarrow> (result \<times> 's \<times> string list) option \<times> net" where
  "queryStream baseURL question onChunk st n =
     (let (out, n') = fetch (stream_request baseURL question) n
      in (case queryStream_try out onChunk st of
            None \<Rightarrow> None
          | Some (Inl e, st', calls) \<Rightarrow>
              Some (\<lparr>data = JNull, error = JStr (str_or e ''Streaming failed. Please try again.'')\<rparr>,
                    st', calls)
          | Some (Inr res, st', calls) \<Rightarrow> Some (res, st', calls),
          n'))"

subsection \<open>The upload\<close>

text \<open>
  The terminal event of the XMLHttpRequest: \<open>load\<close> with \<open>xhr.status\<close> and
  \<open>xhr.responseText\<close>, \<open>error\<close>, or \<open>abort\<close>. How a promise settles.
\<close>

datatype xhr_event = XhrLoad nat string | XhrError | XhrAbort

datatype 'a promise = Resolved 'a | Rejected exn

text \<open>
  The \<open>try\<close> block of the \<open>load\<close> listener. \<open>JSON_parse\<close> is the platform's
  \<open>JSON.parse\<close>, with \<open>Inl\<close> for the SyntaxError it throws.
\<close>

definition uploadDocument_load :: "(string \<Rightarrow> exn + json) \<Rightarrow> nat \<Rightarrow> string \<Rightarrow> exn + result" where
  "uploadDocument_load JSON_parse xhr_status responseText =
     (if 200 \<le> xhr_status \<and> xhr_status < 300 then
        and_then (JSON_parse responseText) (\<lambda>d. Inr \<lparr>data = d, error = JNull\<rparr>)
      else
        and_then (JSON_parse responseText) (\<lambda>errorData.
          and_then (error_field errorData (''Upload failed with status '' @ string_of_nat xhr_status))
            (\<lambda>m. Inr \<lparr>data = JNull, error = m\<rparr>)))"

text \<open>
  \<open>uploadDocument(file, onProgress)\<close> as a function of the terminal event: what the
  returned promise settles with. Progress events do not settle the promise and are left
  out.
\<close>

definition uploadDocument :: "(string \<Rightarrow> exn + json) \<Rightarrow> xhr_event \<Rightarrow> result promise" where
  "uploadDocument JSON_parse ev =
     (case ev of
        XhrLoad xhr_status responseText \<Rightarrow>
          (case uploadDocument_load JSON_parse xhr_status responseText of
             Inr res \<Rightarrow> Resolved res
           | Inl e \<Rightarrow> Resolved \<lparr>data = JNull, error = JStr ''Failed to parse server response''\<rparr>)
      | XhrError \<Rightarrow> Resolved \<lparr>data = JNull, error = JStr ''Network error during upload''\<rparr>
      | XhrAbort \<Rightarrow> Resolved \<lparr>data = JNull, error = JStr ''Upload cancelled''\<rparr>)"

section \<open>The page\<close>

text \<open>
  The parts of the document that the modelled listeners read and write, and the calls of
  \<open>showToast(message, type)\<close> that the modelled part of the listeners has made. A
  \<open>classList\<close> is the list of its tokens.
\<close>

record page =
  questionInput_value :: string
  charCounter_textContent :: string
  charCounter_classList :: "string list"
  includeSourcesCheck_checked :: bool
  enableEvaluationCheck_checked :: bool
  useStreamingCheck_checked :: bool
  healthStatus_innerHTML :: string
  toasts :: "(string \<times> string) list"

definition classList_add :: "string list \<Rightarrow> string \<Rightarrow> string list" where
  "classList_add cl c = (if c \<in> set cl then cl else cl @ [c])"

definition classList_remove :: "string list \<Rightarrow> string \<Rightarrow> string list" where
  "classList_remove cl c = removeAll c cl"

text \<open>The client the page works with is \<open>new APIClient()\<close>: the base URL is empty.\<close>

definition apiClient_baseURL :: string where
  "apiClient_baseURL = []"

subsection \<open>The character counter\<close>

text \<open>The \<open>input\<close> listener that \<open>initializeQueryForm\<close> puts on the question field.\<close>

definition initializeQueryForm_input :: "page \<Rightarrow> page" where
  "initializeQueryForm_input p =
     (let len = length (questionInput_value p);
          p1 = p\<lparr>charCounter_textContent := string_of_nat len @ '' / 1000''\<rparr>;
          p2 = (if len > 900
                then p1\<lparr>charCounter_classList := classList_add (charCounter_classList p1) ''warning''\<rparr>
                else p1\<lparr>charCounter_classList := classList_remove (charCounter_classList p1) ''warning''\<rparr>)
      in (if len > 950
          then p2\<lparr>charCounter_classList :=
                    classList_remove (classList_add (charCounter_classList p2) ''danger'') ''warning''\<rparr>
          else p2\<lparr>charCounter_classList := classList_remove (charCounter_classList p2) ''danger''\<rparr>))"

subsection \<open>The health indicator\<close>

text \<open>
  The markup of the indicator, with the class of the dot and the label filled in; \<open>pad\<close>
  is the indentation of the template literal in the source.
\<close>

definition indicator_html :: "string \<Rightarrow> string \<Rightarrow> string \<Rightarrow> string" where
  \<open>indicator_html pad cls label =
     [CHR 0x0A] @ pad @ ''    <span class="status-dot '' @ cls @ ''"></span>'' @
     [CHR 0x0A] @ pad @ ''    <span class="fw-semibold">'' @ label @ ''</span>'' @
     [CHR 0x0A] @ pad\<close>

definition checking_html :: string where
  "checking_html = indicator_html ''    '' ''checking'' ''Checking...''"

definition healthy_html :: string where
  "healthy_html = indicator_html ''        '' ''healthy'' ''Healthy''"

definition degraded_html :: string where
  "degraded_html = indicator_html ''        '' ''unhealthy'' ''Degraded''"

definition unhealthy_html :: string where
  "unhealthy_html = indicator_html ''        '' ''unhealthy'' ''Unhealthy''"

text \<open>
  \<open>updateHealthIndicator()\<close>: how its promise settles, the page and the network
  afterwards. Reading \<open>data.status\<close> is the one step outside a \<open>try\<close> that can throw.
\<close>

definition updateHealthIndicator :: "page \<Rightarrow> net \<Rightarrow> unit promise \<times> page \<times> net" where
  "updateHealthIndicator p n =
     (let p1 = p\<lparr>healthStatus_innerHTML := checking_html\<rparr>;
          (res, n') = readinessCheck apiClient_baseURL n
      in if truthy (error res) then
           (Resolved (), p1\<lparr>healthStatus_innerHTML := unhealthy_html\<rparr>, n')
         else
           (case get_prop (data res) ''status'' of
              Inl e \<Rightarrow> (Rejected e, p1, n')
            | Inr st \<Rightarrow>
                (case (if st = Some (JStr ''ready'') then get_prop (data res) ''qdrant_connected''
                       else Inr (Some (JBool False))) of
                   Inl e \<Rightarrow> (Rejected e, p1, n')
                 | Inr isHealthy \<Rightarrow>
                     (let statusClass = (if truthy_opt isHealthy then ''healthy'' else ''unhealthy'');
                          statusText = (if truthy_opt isHealthy then ''Healthy'' else ''Degraded'')
                      in (Resolved (),
                          p1\<lparr>healthStatus_innerHTML := indicator_html ''        '' statusClass statusText\<rparr>,
                          n')))))"

subsection \<open>Submitting a question\<close>

text \<open>
  \<open>String.prototype.trim\<close> on the code units a \<open>char\<close> covers: tab, line feed,
  vertical tab, form feed, carriage return, space and no-break space are the white space
  and line terminators below 256.
\<close>

definition is_white_space :: "char \<Rightarrow> bool" where
  "is_white_space c =
     (c = CHR 0x09 \<or> c = CHR 0x0A \<or> c = CHR 0x0B \<or> c = CHR 0x0C \<or> c = CHR 0x0D \<or>
      c = CHR 0x20 \<or> c = CHR 0xA0)"

definition trim :: "string \<Rightarrow> string" where
  "trim s = rev (dropWhile is_white_space (rev (dropWhile is_white_space s)))"

text \<open>What \<open>validateQuestion\<close> returns.\<close>

record validation =
  valid :: bool
  validation_error :: string

text \<open>
  \<open>handleStandardQuery\<close> and \<open>handleStreamingQuery\<close>, followed to the return of their
  call of the API client: the Result they receive and the network afterwards. The
  callback of the streaming path appends each chunk to \<open>fullAnswer\<close>. What the two
  functions render before and after the call goes through templates and helpers that
  these sources do not hold; it is not part of the model, and the templates used before
  the call are taken to return.
\<close>

definition handleStandardQuery :: "string \<Rightarrow> bool \<Rightarrow> bool \<Rightarrow> net \<Rightarrow> result \<times> net" where
  "handleStandardQuery question includeSources enableEvaluation n =
     query apiClient_baseURL question includeSources enableEvaluation n"

definition handleStreamingQuery ::
  "string \<Rightarrow> net \<Rightarrow> (result \<times> string \<times> string list) option \<times> net" where
  "handleStreamingQuery question n =
     queryStream apiClient_baseURL question
       (Some (\<lambda>chunk fullAnswer. (None, fullAnswer @ chunk))) [] n"

text \<open>
  \<open>handleQuerySubmit()\<close>, with the repository's \<open>validateQuestion\<close> as a parameter: a
  question that is not valid is answered with a toast and nothing else, a valid one goes
  to the streaming or to the standard path. On these two paths the page is given as it
  is when the call of the API client returns: the toast that the code shows after the
  call (success, the error of the Result, or \<open>Query failed\<close>) depends on the rendering
  and is not in \<open>toasts\<close>.
\<close>

datatype submitted =
    NotValid
  | Standard result
  | Streaming "(result \<times> string \<times> string list) option"

definition handleQuerySubmit ::
  "(string \<Rightarrow> validation) \<Rightarrow> page \<Rightarrow> net \<Rightarrow> submitted \<times> page \<times> net" where
  "handleQuerySubmit validateQuestion p n =
     (let question = trim (questionInput_value p);
          includeSources = includeSourcesCheck_checked p;
          enableEvaluation = enableEvaluationCheck_checked p;
          useStreaming = useStreamingCheck_checked p;
          v = validateQuestion question
      in if \<not> valid v then
           (NotValid, p\<lparr>toasts := toasts p @ [(validation_error v, ''error'')]\<rparr>, n)
         else if useStreaming then
           (let (r, n') = handleStreamingQuery question n in (Streaming r, p, n'))
         else
           (let (r, n') = handleStandardQuery question includeSources enableEvaluation n
            in (Standard r, p, n')))"

section \<open>Properties of a Result\<close>

text \<open>Exactly one of the two fields of a Result is not \<open>null\<close>.\<close>

definition exactly_one :: "result \<Rightarrow> bool" where
  "exactly_one res = ((data res = JNull) \<noteq> (error res = JNull))"

text \<open>
  What \<open>fetch\<close> settled with is a 2xx response that \<open>request\<close> reads as JSON and whose
  body is the JSON text \<open>null\<close>.
\<close>

definition answers_null :: "exn + response \<Rightarrow> bool" where
  "answers_null out =
     (case out of
        Inl e \<Rightarrow> False
      | Inr r \<Rightarrow> ok r \<and> \<not> non_json_content_type r \<and> json_result r = Inr JNull)"

text \<open>
  The values of those of the properties \<open>error\<close>, \<open>message\<close> and \<open>detail\<close> that a
  parsed body has, in this order.
\<close>

definition present_fields :: "json \<Rightarrow> json list" where
  "present_fields d =
     (case d of
        JObj kvs \<Rightarrow> List.map_filter (map_of kvs) [''error'', ''message'', ''detail'']
      | _ \<Rightarrow> [])"

section \<open>Example inputs\<close>

text \<open>A page as it is after loading, and a network that refuses every connection.\<close>

definition page0 :: page where
  "page0 =
     \<lparr>questionInput_value = [],
      charCounter_textContent = ''0 / 1000'',
      charCounter_classList = [''char-counter''],
      includeSourcesCheck_checked = True,
      enableEvaluationCheck_checked = False,
      useStreamingCheck_checked = False,
      healthStatus_innerHTML = [],
      toasts = []\<rparr>"

definition offline :: net where
  "offline = \<lparr>respond = (\<lambda>k req. Inl ''Failed to fetch''), sent = []\<rparr>"

text \<open>A network that answers every request with the response \<open>r\<close>.\<close>

definition serving :: "response \<Rightarrow> net" where
  "serving r = \<lparr>respond = (\<lambda>k req. Inr r), sent = []\<rparr>"

text \<open>
  A response with a JSON body: the status line and the value the body parses to. Its
  body is read once, by \<open>json()\<close>.
\<close>

definition json_response :: "nat \<Rightarrow> string \<Rightarrow> json \<Rightarrow> response" where
  "json_response st stText d =
     \<lparr>status = st, statusText = stText, content_type = Some ''application/json'',
      text_result = Inl ''body stream already read'', json_result = Inr d, body = None\<rparr>"

text \<open>A response with a plain-text body, delivered by the stream \<open>reader\<close>.\<close>

definition text_response :: "nat \<Rightarrow> string \<Rightarrow> string \<Rightarrow> (nat \<Rightarrow> read_outcome) \<Rightarrow> response" where
  "text_response st stText t reader =
     \<lparr>status = st, statusText = stText, content_type = Some ''text/plain; charset=utf-8'',
      text_result = Inr t, json_result = Inl ''Unexpected token'', body = Some reader\<rparr>"

text \<open>A response without a content-type header whose body is an HTML page.\<close>

definition bare_response :: response where
  "bare_response =
     \<lparr>status = 200, statusText = ''OK'', content_type = None,
      text_result = Inr ''<html>It works</html>'', json_result = Inl ''Unexpected token <'',
      body = None\<rparr>"

text \<open>A stream of two chunks, and one that ends at once.\<close>

definition two_chunks :: "nat \<Rightarrow> read_outcome" where
  "two_chunks k =
     (if k = 0 then ReadValue ''Hello, '' else if k = 1 then ReadValue ''world'' else ReadDone)"

definition no_chunks :: "nat \<Rightarrow> read_outcome" where
  "no_chunks k = ReadDone"

text \<open>A callback that appends each chunk to the text it has so far.\<close>

definition append_chunk :: "string callback" where
  "append_chunk chunk fullAnswer = (None, fullAnswer @ chunk)"

text \<open>
  A stand-in for \<open>JSON.parse\<close> in the examples of the upload: it reads the text \<open>null\<close>
  as \<open>JSON.parse\<close> does and rejects the other texts, of which the examples use an HTML
  page only.
\<close>

definition JSON_parse_sample :: "string \<Rightarrow> exn + json" where
  "JSON_parse_sample t = (if t = ''null'' then Inr JNull else Inl ''Unexpected token'')"

text \<open>A \<open>validateQuestion\<close> that accepts the questions of 1 to 1000 characters.\<close>

definition validateQuestion_sample :: "string \<Rightarrow> validation" where
  "validateQuestion_sample q =
     (if q = [] then \<lparr>valid = False, validation_error = ''Please enter a question''\<rparr>
      else if length q > 1000 then \<lparr>valid = False, validation_error = ''Question is too long''\<rparr>
      else \<lparr>valid = True, validation_error = []\<rparr>)"

section \<open>Basic facts\<close>

lemma http_message_nonempty: "http_message r \<noteq> []"
  by (simp add: http_message_def)

lemma js_or_Inr_iff:
  "js_or v rest = Inr m \<longleftrightarrow> (v = Some m \<and> truthy m) \<or> (\<not> truthy_opt v \<and> rest = Inr m)"
  by (cases v) auto

lemma js_or_Inl_iff: "js_or v rest = Inl e \<longleftrightarrow> \<not> truthy_opt v \<and> rest = Inl e"
  by (cases v) auto

lemma and_then_Inr_iff: "and_then x f = Inr y \<longleftrightarrow> (\<exists>a. x = Inr a \<and> f a = Inr y)"
  by (cases x) auto

lemma and_then_Inl_iff:
  "and_then x f = Inl e \<longleftrightarrow> x = Inl e \<or> (\<exists>a. x = Inr a \<and> f a = Inl e)"
  by (cases x) auto

text \<open>The message taken from an error body is truthy, hence not \<open>null\<close>.\<close>

lemma error_field_truthy: "fb \<noteq> [] \<Longrightarrow> error_field d fb = Inr m \<Longrightarrow> truthy m"
  by (cases d) (auto simp: error_field_def js_or_Inr_iff)

text \<open>On a body other than \<open>null\<close> it is the first truthy one of the fields present.\<close>

lemma error_field_find:
  "d \<noteq> JNull \<Longrightarrow>
   error_field d fb = Inr (case find truthy (present_fields d) of Some v \<Rightarrow> v | None \<Rightarrow> JStr fb)"
  by (cases d)
     (auto simp: error_field_def present_fields_def List.map_filter_def js_or_Inr_iff
           split: option.splits)

text \<open>\<open>str_includes\<close> is containment as a contiguous run.\<close>

lemma take_length_eq_iff: "take (length t) s = t \<longleftrightarrow> (\<exists>post. s = t @ post)"
proof
  assume "take (length t) s = t"
  then have "s = t @ drop (length t) s"
    by (metis append_take_drop_id)
  then show "\<exists>post. s = t @ post" ..
next
  assume "\<exists>post. s = t @ post"
  then show "take (length t) s = t" by auto
qed

lemma str_includes_iff: "str_includes s t \<longleftrightarrow> (\<exists>pre post. s = pre @ t @ post)"
proof (induction s)
  case Nil
  show ?case by auto
next
  case (Cons c cs)
  show ?case
  proof
    assume "str_includes (c # cs) t"
    then consider "take (length t) (c # cs) = t" | "str_includes cs t" by auto
    then show "\<exists>pre post. c # cs = pre @ t @ post"
    proof cases
      case 1
      then obtain post where "c # cs = t @ post"
        using take_length_eq_iff [of t "c # cs"] by blast
      then have "c # cs = [] @ t @ post" by simp
      then show ?thesis by blast
    next
      case 2
      then obtain pre post where "cs = pre @ t @ post"
        using Cons.IH by blast
      then have "c # cs = (c # pre) @ t @ post" by simp
      then show ?thesis by blast
    qed
  next
    assume "\<exists>pre post. c # cs = pre @ t @ post"
    then obtain pre post where eq: "c # cs = pre @ t @ post" by blast
    show "str_includes (c # cs) t"
    proof (cases pre)
      case Nil
      with eq have "take (length t) (c # cs) = t"
        using take_length_eq_iff [of t "c # cs"] by auto
      then show ?thesis by simp
    next
      case (Cons a pre')
      with eq have "cs = pre' @ t @ post" by simp
      then have "str_includes cs t" using Cons.IH by blast
      then show ?thesis by simp
    qed
  qed
qed

lemma extend_options:
  "options.extend \<lparr>http_method = m, headers = h, body_json = bj\<rparr> (http_request.fields u) =
     \<lparr>http_method = m, headers = h, body_json = bj, url = u\<rparr>"
  by (simp add: options.defs http_request.defs)

subsection \<open>\<open>request\<close>\<close>

lemma request_eq:
  "fst (request b e opts n) =
     (case request_try (respond n (length (sent n)) (options.extend opts (http_request.fields (b @ e)))) of
        Inl x \<Rightarrow> \<lparr>data = JNull, error = JStr (str_or x ''Network error. Please check your connection.'')\<rparr>
      | Inr res \<Rightarrow> res)"
  by (simp add: request_def fetch_def split: sum.splits)

lemma request_sent:
  "sent (snd (request b e opts n)) = sent n @ [options.extend opts (http_request.fields (b @ e))]"
  by (simp add: request_def fetch_def split: sum.splits)

lemma request_try_Inr:
  "request_try out = Inr res \<Longrightarrow>
     (if answers_null out then res = \<lparr>data = JNull, error = JNull\<rparr>
      else exactly_one res \<and> (error res \<noteq> JNull \<longrightarrow> truthy (error res)))"
  by (auto simp: request_try_def answers_null_def exactly_one_def str_or_def http_message_nonempty
           split: sum.splits if_splits dest: error_field_truthy[OF http_message_nonempty])

lemma request_try_Inl: "request_try out = Inl e \<Longrightarrow> \<not> answers_null out"
  by (auto simp: request_try_def answers_null_def split: sum.splits if_splits)

lemma request_shape:
  "(if answers_null (respond n (length (sent n)) (options.extend opts (http_request.fields (b @ e))))
    then fst (request b e opts n) = \<lparr>data = JNull, error = JNull\<rparr>
    else exactly_one (fst (request b e opts n)) \<and>
         (error (fst (request b e opts n)) \<noteq> JNull \<longrightarrow> truthy (error (fst (request b e opts n)))))"
proof (cases "request_try (respond n (length (sent n)) (options.extend opts (http_request.fields (b @ e))))")
  case (Inl x)
  then show ?thesis
    using request_try_Inl [OF Inl]
    by (simp add: request_eq exactly_one_def str_or_def)
next
  case (Inr res)
  then show ?thesis
    using request_try_Inr [OF Inr]
    by (simp add: request_eq split: if_splits)
qed

lemma request_shape_url:
  "(if answers_null (respond n (length (sent n))
          \<lparr>http_method = m, headers = h, body_json = bj, url = b @ e\<rparr>)
    then fst (request b e \<lparr>http_method = m, headers = h, body_json = bj\<rparr> n) =
           \<lparr>data = JNull, error = JNull\<rparr>
    else exactly_one (fst (request b e \<lparr>http_method = m, headers = h, body_json = bj\<rparr> n)))"
  using request_shape [of n "\<lparr>http_method = m, headers = h, body_json = bj\<rparr>" b e]
  by (simp add: extend_options split: if_splits)

lemma read_loop_calls_aux:
  assumes "read_loop reader onChunk k fullText st calls = Some y"
  shows "\<exists>new. snd (snd y) = calls @ new \<and>
           (onChunk = None \<longrightarrow> new = [] \<and> fst (snd y) = st) \<and>
           (\<forall>t. fst y = Inr t \<and> onChunk \<noteq> None \<longrightarrow> t = fullText @ concat new)"
  using assms
proof (induction rule: read_loop.raw_induct[rotated 1, consumes 1])
  case (1 loop reader onChunk k fullText st calls y)
  show ?case
  proof (cases "reader k")
    case ReadDone
    with 1(2) show ?thesis by auto
  next
    case (ReadFails e)
    with 1(2) show ?thesis by auto
  next
    case (ReadValue chunk)
    show ?thesis
    proof (cases onChunk)
      case None
      with ReadValue 1(2)
      have "loop reader onChunk (Suc k) (fullText @ chunk) st calls = Some y"
        by simp
      from 1(1)[OF this] None show ?thesis by auto
    next
      case (Some f)
      obtain thrown st1 where f: "f chunk st = (thrown, st1)"
        by (cases "f chunk st")
      show ?thesis
      proof (cases thrown)
        case None
        with ReadValue Some f 1(2)
        have "loop reader onChunk (Suc k) (fullText @ chunk) st1 (calls @ [chunk]) = Some y"
          by simp
        from 1(1)[OF this] Some show ?thesis by auto
      next
        case (Some e)
        with ReadValue \<open>onChunk = Some f\<close> f 1(2) show ?thesis by auto
      qed
    qed
  qed
qed

lemma read_loop_calls:
  assumes "read_loop reader onChunk k fullText st calls = Some (x, st', calls')"
  shows "\<exists>new. calls' = calls @ new \<and>
           (onChunk = None \<longrightarrow> new = [] \<and> st' = st) \<and>
           (\<forall>t. x = Inr t \<and> onChunk \<noteq> None \<longrightarrow> t = fullText @ concat new)"
  using read_loop_calls_aux [OF assms] by simp

text \<open>
  On a stream that delivers the chunks \<open>cs\<close> and then ends, with a callback that does
  not throw, the loop returns.
\<close>

lemma read_loop_completes:
  assumes "\<forall>i < length cs. reader (k + i) = ReadValue (cs ! i)"
    and "reader (k + length cs) = ReadDone"
    and "\<forall>c s. fst (f c s) = None"
  shows "\<exists>st'. read_loop reader (Some f) k fullText st calls =
           Some (Inr (fullText @ concat cs), st', calls @ cs)"
  using assms
proof (induction cs arbitrary: k fullText st calls)
  case Nil
  then show ?case by (subst read_loop.simps) simp
next
  case (Cons c cs)
  have head: "reader k = ReadValue c"
    using Cons.prems(1) by force
  obtain st1 where f: "f c st = (None, st1)"
    using Cons.prems(3) by (metis fst_conv surj_pair)
  have "\<forall>i < length cs. reader (Suc k + i) = ReadValue (cs ! i)"
    using Cons.prems(1) by fastforce
  moreover have "reader (Suc k + length cs) = ReadDone"
    using Cons.prems(2) by simp
  ultimately obtain st' where
    "read_loop reader (Some f) (Suc k) (fullText @ c) st1 (calls @ [c]) =
       Some (Inr ((fullText @ c) @ concat cs), st', (calls @ [c]) @ cs)"
    using Cons.IH [of "Suc k" "fullText @ c" st1 "calls @ [c]"] Cons.prems(3) by blast
  then show ?case
    by (subst read_loop.simps) (simp add: head f)
qed

subsection \<open>\<open>queryStream\<close>\<close>

text \<open>Without a callback the loop returns on every stream that ends.\<close>

lemma read_loop_completes_no_callback:
  assumes "\<forall>i < length cs. reader (k + i) = ReadValue (cs ! i)"
    and "reader (k + length cs) = ReadDone"
  shows "read_loop reader None k fullText st calls = Some (Inr (fullText @ concat cs), st, calls)"
  using assms
proof (induction cs arbitrary: k fullText)
  case Nil
  then show ?case by (subst read_loop.simps) simp
next
  case (Cons c cs)
  have head: "reader k = ReadValue c"
    using Cons.prems(1) by force
  have "\<forall>i < length cs. reader (Suc k + i) = ReadValue (cs ! i)"
    using Cons.prems(1) by fastforce
  moreover have "reader (Suc k + length cs) = ReadDone"
    using Cons.prems(2) by simp
  ultimately have
    "read_loop reader None (Suc k) (fullText @ c) st calls =
       Some (Inr ((fullText @ c) @ concat cs), st, calls)"
    by (rule Cons.IH)
  then show ?case
    by (subst read_loop.simps) (simp add: head)
qed

lemma queryStream_eq:
  "queryStream b q onChunk st n =
     (case queryStream_try (respond n (length (sent n)) (stream_request b q)) onChunk st of
        None \<Rightarrow> None
      | Some (Inl e, st', calls) \<Rightarrow>
          Some (\<lparr>data = JNull, error = JStr (str_or e ''Streaming failed. Please try again.'')\<rparr>,
                st', calls)
      | Some (Inr res, st', calls) \<Rightarrow> Some (res, st', calls),
      n\<lparr>sent := sent n @ [stream_request b q]\<rparr>)"
  by (simp add: queryStream_def fetch_def)

lemma queryStream_try_Inr:
  assumes "queryStream_try out (Some f) st = Some (Inr res, st', calls)"
  shows "error res = JNull \<longrightarrow> data res = JStr (concat calls)"
  using assms
  by (auto simp: queryStream_try_def split: sum.splits if_splits option.splits dest!: read_loop_calls)

lemma queryStream_try_exactly_one:
  assumes "queryStream_try out onChunk st = Some (Inr res, st', calls)"
  shows "exactly_one res"
  using assms
  by (auto simp: queryStream_try_def exactly_one_def str_or_def http_message_nonempty
           split: sum.splits if_splits option.splits)

lemma queryStream_try_no_callback:
  assumes "queryStream_try out None st = Some (x, st', calls)"
  shows "calls = [] \<and> st' = st"
  using assms
  by (auto simp: queryStream_try_def split: sum.splits if_splits option.splits dest!: read_loop_calls)

lemma queryStream_cases:
  assumes "queryStream b q onChunk st n = (Some (res, st', calls), n')"
  obtains (thrown) e where
      "queryStream_try (respond n (length (sent n)) (stream_request b q)) onChunk st =
         Some (Inl e, st', calls)"
      "res = \<lparr>data = JNull, error = JStr (str_or e ''Streaming failed. Please try again.'')\<rparr>"
    | (returned)
      "queryStream_try (respond n (length (sent n)) (stream_request b q)) onChunk st =
         Some (Inr res, st', calls)"
proof (cases "queryStream_try (respond n (length (sent n)) (stream_request b q)) onChunk st")
  case None
  with assms show ?thesis by (simp add: queryStream_eq)
next
  case (Some y)
  obtain x st1 calls1 where y: "y = (x, st1, calls1)"
    by (cases y)
  show ?thesis
  proof (cases x)
    case (Inl e)
    with Some y assms thrown [of e] show ?thesis by (auto simp: queryStream_eq)
  next
    case (Inr r)
    with Some y assms returned show ?thesis by (auto simp: queryStream_eq)
  qed
qed

lemma queryStream_exactly_one:
  assumes "queryStream b q onChunk st n = (Some (res, st', calls), n')"
  shows "exactly_one res"
  using assms
proof (cases rule: queryStream_cases)
  case (thrown e)
  then show ?thesis by (simp add: exactly_one_def)
next
  case returned
  then show ?thesis by (rule queryStream_try_exactly_one)
qed

subsection \<open>\<open>uploadDocument\<close>\<close>

lemma uploadDocument_load_Inr:
  assumes "uploadDocument_load P s t = Inr res"
  shows "if 200 \<le> s \<and> s < 300 \<and> P t = Inr JNull then res = \<lparr>data = JNull, error = JNull\<rparr>
         else exactly_one res \<and> (error res \<noteq> JNull \<longrightarrow> truthy (error res))"
proof (cases "200 \<le> s \<and> s < 300")
  case True
  with assms show ?thesis
    by (auto simp: uploadDocument_load_def and_then_Inr_iff exactly_one_def)
next
  case False
  with assms obtain d m where "P t = Inr d"
    and m: "error_field d (''Upload failed with status '' @ string_of_nat s) = Inr m"
    and res: "res = \<lparr>data = JNull, error = m\<rparr>"
    by (auto simp: uploadDocument_load_def and_then_Inr_iff)
  have "truthy m"
    using error_field_truthy [OF _ m] by simp
  with res False show ?thesis by (auto simp: exactly_one_def)
qed

lemma uploadDocument_load_Inl:
  "uploadDocument_load P s t = Inl e \<Longrightarrow> \<not> (200 \<le> s \<and> s < 300 \<and> P t = Inr JNull)"
  by (auto simp: uploadDocument_load_def and_then_Inl_iff split: if_splits)

lemma uploadDocument_shape:
  assumes "uploadDocument P ev = Resolved res"
  shows "if (\<exists>s t. ev = XhrLoad s t \<and> 200 \<le> s \<and> s < 300 \<and> P t = Inr JNull)
         then res = \<lparr>data = JNull, error = JNull\<rparr>
         else exactly_one res \<and> (error res \<noteq> JNull \<longrightarrow> truthy (error res))"
proof (cases ev)
  case (XhrLoad s t)
  show ?thesis
  proof (cases "uploadDocument_load P s t")
    case (Inl e)
    with assms XhrLoad uploadDocument_load_Inl [OF Inl] show ?thesis
      by (auto simp: uploadDocument_def exactly_one_def)
  next
    case (Inr r)
    with assms XhrLoad uploadDocument_load_Inr [OF Inr] show ?thesis
      by (auto simp: uploadDocument_def split: if_splits)
  qed
qed (use assms in \<open>auto simp: uploadDocument_def exactly_one_def\<close>)

lemma uploadDocument_resolves: "\<exists>res. uploadDocument P ev = Resolved res"
  by (cases ev) (auto simp: uploadDocument_def split: sum.splits)

subsection \<open>\<open>trim\<close>\<close>

lemma trim_white_space:
  assumes "\<forall>c \<in> set v. is_white_space c"
  shows "trim v = []"
proof -
  have nothing_left: "dropWhile is_white_space v = []"
    using assms by (simp only: dropWhile_eq_Nil_conv)
  show ?thesis unfolding trim_def nothing_left by simp
qed

lemma trim_decomposition:
  "\<exists>pre post. v = pre @ trim v @ post \<and>
     (\<forall>c \<in> set pre. is_white_space c) \<and> (\<forall>c \<in> set post. is_white_space c) \<and>
     (trim v \<noteq> [] \<longrightarrow> \<not> is_white_space (hd (trim v)) \<and> \<not> is_white_space (last (trim v)))"
proof -
  let ?w = "dropWhile is_white_space v"
  let ?pre = "takeWhile is_white_space v"
  let ?post = "rev (takeWhile is_white_space (rev ?w))"
  have w: "?w = trim v @ ?post"
  proof -
    have "rev (takeWhile is_white_space (rev ?w) @ dropWhile is_white_space (rev ?w)) = rev (rev ?w)"
      by (simp only: takeWhile_dropWhile_id)
    then show ?thesis by (simp only: trim_def rev_append rev_rev_ident)
  qed
  have v: "v = ?pre @ trim v @ ?post"
    using w takeWhile_dropWhile_id [of is_white_space v] by simp
  have pre: "\<forall>c \<in> set ?pre. is_white_space c"
    by (auto dest: set_takeWhileD)
  have post: "\<forall>c \<in> set ?post. is_white_space c"
    by (auto dest: set_takeWhileD)
  have ends: "\<not> is_white_space (hd (trim v)) \<and> \<not> is_white_space (last (trim v))"
    if ne: "trim v \<noteq> []"
  proof
    have "?w \<noteq> []"
      using w ne by (metis Nil_is_append_conv)
    then have "\<not> is_white_space (hd ?w)"
      by (rule hd_dropWhile)
    moreover have "hd ?w = hd (trim v)"
      using w ne by (metis hd_append2)
    ultimately show "\<not> is_white_space (hd (trim v))" by simp
  next
    have "dropWhile is_white_space (rev ?w) \<noteq> []"
      using ne by (simp add: trim_def)
    then have "\<not> is_white_space (hd (dropWhile is_white_space (rev ?w)))"
      by (rule hd_dropWhile)
    moreover have "last (trim v) = hd (dropWhile is_white_space (rev ?w))"
      using ne by (simp add: trim_def last_rev)
    ultimately show "\<not> is_white_space (last (trim v))" by simp
  qed
  from v pre post ends show ?thesis by blast
qed

section \<open>The Result of an API client call\<close>

text \<open>
  C1, as the specification states it: for every API client method and everything the
  transport can produce, exactly one of \<open>data\<close> and \<open>error\<close> of the returned Result is
  not \<open>null\<close>. This fails: \<open>deleteCollection\<close>, answered with status 200, content type
  \<open>application/json\<close> and the body \<open>null\<close>, returns a Result whose two fields are both
  \<open>null\<close>.
\<close>

theorem result_exactly_one_counterexample:
  "fst (deleteCollection [] (serving (json_response 200 ''OK'' JNull))) = \<lparr>data = JNull, error = JNull\<rparr> \<and>
   \<not> exactly_one (fst (deleteCollection [] (serving (json_response 200 ''OK'' JNull))))"
  by (simp add: deleteCollection_def request_eq serving_def json_response_def request_try_def
      non_json_content_type_def ok_def exactly_one_def)

text \<open>
  C1, amended: a Result never has both fields set. \<open>request\<close> and each of the six
  methods built on it (\<open>getCollectionInfo\<close>, \<open>deleteCollection\<close>, \<open>query\<close>,
  \<open>searchDocuments\<close>, \<open>healthCheck\<close>, \<open>readinessCheck\<close>) return a Result with exactly
  one field set, except that both fields are \<open>null\<close> when, and only when, the answer to
  the request the method sends is a 2xx response read as JSON whose body is \<open>null\<close>.
  The promise of \<open>uploadDocument\<close> resolves with exactly one field set, except that
  both are \<open>null\<close> when, and only when, the status is 2xx and the response text parses
  to \<open>null\<close>. Every Result that \<open>queryStream\<close> returns has exactly one field set.
\<close>

theorem result_at_most_one:
  "(if answers_null (respond n (length (sent n)) (options.extend opts (http_request.fields (b @ e))))
    then fst (request b e opts n) = \<lparr>data = JNull, error = JNull\<rparr>
    else exactly_one (fst (request b e opts n))) \<and>
   (if answers_null (respond n (length (sent n))
          \<lparr>http_method = ''GET'', headers = [], body_json = None, url = b @ ''/documents/info''\<rparr>)
    then fst (getCollectionInfo b n) = \<lparr>data = JNull, error = JNull\<rparr>
    else exactly_one (fst (getCollectionInfo b n))) \<and>
   (if answers_null (respond n (length (sent n))
          \<lparr>http_method = ''DELETE'', headers = [], body_json = None,
           url = b @ ''/documents/collection''\<rparr>)
    then fst (deleteCollection b n) = \<lparr>data = JNull, error = JNull\<rparr>
    else exactly_one (fst (deleteCollection b n))) \<and>
   (if answers_null (respond n (length (sent n))
          \<lparr>http_method = ''POST'', headers = [(''Content-Type'', ''application/json'')],
           body_json = Some (JObj [(''question'', JStr q),
                                   (''include_sources'', JBool includeSources),
                                   (''enable_evaluation'', JBool enableEvaluation)]),
           url = b @ ''/query''\<rparr>)
    then fst (query b q includeSources enableEvaluation n) = \<lparr>data = JNull, error = JNull\<rparr>
    else exactly_one (fst (query b q includeSources enableEvaluation n))) \<and>
   (if answers_null (respond n (length (sent n))
          \<lparr>http_method = ''POST'', headers = [(''Content-Type'', ''application/json'')],
           body_json = Some (JObj [(''question'', JStr q)]),
           url = b @ ''/query/search''\<rparr>)
    then fst (searchDocuments b q n) = \<lparr>data = JNull, error = JNull\<rparr>
    else exactly_one (fst (searchDocuments b q n))) \<and>
   (if answers_null (respond n (length (sent n))
          \<lparr>http_method = ''GET'', headers = [], body_json = None, url = b @ ''/health''\<rparr>)
    then fst (healthCheck b n) = \<lparr>data = JNull, error = JNull\<rparr>
    else exactly_one (fst (healthCheck b n))) \<and>
   (if answers_null (respond n (length (sent n))
          \<lparr>http_method = ''GET'', headers = [], body_json = None, url = b @ ''/health/ready''\<rparr>)
    then fst (readinessCheck b n) = \<lparr>data = JNull, error = JNull\<rparr>
    else exactly_one (fst (readinessCheck b n))) \<and>
   (\<exists>res. uploadDocument P ev = Resolved res \<and>
      (if \<exists>s t. ev = XhrLoad s t \<and> 200 \<le> s \<and> s < 300 \<and> P t = Inr JNull
       then res = \<lparr>data = JNull, error = JNull\<rparr>
       else exactly_one res)) \<and>
   (\<forall>res st' calls n'. queryStream b q onChunk st n = (Some (res, st', calls), n') \<longrightarrow> exactly_one res)"
proof (intro conjI)
  show "if answers_null (respond n (length (sent n)) (options.extend opts (http_request.fields (b @ e))))
    then fst (request b e opts n) = \<lparr>data = JNull, error = JNull\<rparr>
    else exactly_one (fst (request b e opts n))"
    using request_shape [of n opts b e] by (simp split: if_splits)
next
  show "if answers_null (respond n (length (sent n))
          \<lparr>http_method = ''GET'', headers = [], body_json = None, url = b @ ''/documents/info''\<rparr>)
    then fst (getCollectionInfo b n) = \<lparr>data = JNull, error = JNull\<rparr>
    else exactly_one (fst (getCollectionInfo b n))"
    unfolding getCollectionInfo_def by (rule request_shape_url)
next
  show "if answers_null (respond n (length (sent n))
          \<lparr>http_method = ''DELETE'', headers = [], body_json = None,
           url = b @ ''/documents/collection''\<rparr>)
    then fst (deleteCollection b n) = \<lparr>data = JNull, error = JNull\<rparr>
    else exactly_one (fst (deleteCollection b n))"
    unfolding deleteCollection_def by (rule request_shape_url)
next
  show "if answers_null (respond n (length (sent n))
          \<lparr>http_method = ''POST'', headers = [(''Content-Type'', ''application/json'')],
           body_json = Some (JObj [(''question'', JStr q),
                                   (''include_sources'', JBool includeSources),
                                   (''enable_evaluation'', JBool enableEvaluation)]),
           url = b @ ''/query''\<rparr>)
    then fst (query b q includeSources enableEvaluation n) = \<lparr>data = JNull, error = JNull\<rparr>
    else exactly_one (fst (query b q includeSources enableEvaluation n))"
    unfolding query_def by (rule request_shape_url)
next
  show "if answers_null (respond n (length (sent n))
          \<lparr>http_method = ''POST'', headers = [(''Content-Type'', ''application/json'')],
           body_json = Some (JObj [(''question'', JStr q)]),
           url = b @ ''/query/search''\<rparr>)
    then fst (searchDocuments b q n) = \<lparr>data = JNull, error = JNull\<rparr>
    else exactly_one (fst (searchDocuments b q n))"
    unfolding searchDocuments_def by (rule request_shape_url)
next
  show "if answers_null (respond n (length (sent n))
          \<lparr>http_method = ''GET'', headers = [], body_json = None, url = b @ ''/health''\<rparr>)
    then fst (healthCheck b n) = \<lparr>data = JNull, error = JNull\<rparr>
    else exactly_one (fst (healthCheck b n))"
    unfolding healthCheck_def by (rule request_shape_url)
next
  show "if answers_null (respond n (length (sent n))
          \<lparr>http_method = ''GET'', headers = [], body_json = None, url = b @ ''/health/ready''\<rparr>)
    then fst (readinessCheck b n) = \<lparr>data = JNull, error = JNull\<rparr>
    else exactly_one (fst (readinessCheck b n))"
    unfolding readinessCheck_def by (rule request_shape_url)
next
  obtain res where res: "uploadDocument P ev = Resolved res"
    using uploadDocument_resolves by blast
  from uploadDocument_shape [OF res] res
  show "\<exists>res. uploadDocument P ev = Resolved res \<and>
      (if \<exists>s t. ev = XhrLoad s t \<and> 200 \<le> s \<and> s < 300 \<and> P t = Inr JNull
       then res = \<lparr>data = JNull, error = JNull\<rparr>
       else exactly_one res)"
    by (auto split: if_splits)
next
  show "\<forall>res st' calls n'. queryStream b q onChunk st n = (Some (res, st', calls), n') \<longrightarrow> exactly_one res"
    by (auto dest: queryStream_exactly_one)
qed

theorem result_at_most_one_witness:
  "exactly_one (fst (request [] ''/health'' \<lparr>http_method = ''GET'', headers = [], body_json = None\<rparr>
      (serving (text_response 200 ''OK'' ''Hello, world'' two_chunks)))) \<and>
   exactly_one (fst (healthCheck [] (serving (text_response 200 ''OK'' ''Hello, world'' two_chunks)))) \<and>
   fst (deleteCollection [] (serving (json_response 200 ''OK'' JNull))) = \<lparr>data = JNull, error = JNull\<rparr> \<and>
   uploadDocument JSON_parse_sample (XhrLoad 200 ''null'') = Resolved \<lparr>data = JNull, error = JNull\<rparr> \<and>
   exactly_one \<lparr>data = JStr ''Hello, world'', error = JNull\<rparr>"
proof -
  let ?n = "serving (text_response 200 ''OK'' ''Hello, world'' two_chunks)"
  let ?m = "serving (json_response 200 ''OK'' JNull)"
  let ?opts = "\<lparr>http_method = ''GET'', headers = [], body_json = None\<rparr>"
  note inst = result_at_most_one
      [where n = ?n and b = "[]" and e = "''/health''" and opts = ?opts
         and q = "''What is X?''" and includeSources = True and enableEvaluation = False
         and P = JSON_parse_sample and ev = "XhrLoad 200 ''null''"
         and onChunk = "Some append_chunk" and st = "[]"]
  note inst_null = result_at_most_one
      [where n = ?m and b = "[]" and e = "''/health''" and opts = ?opts
         and q = "''What is X?''" and includeSources = True and enableEvaluation = False
         and P = JSON_parse_sample and ev = "XhrLoad 200 ''null''"
         and onChunk = "Some append_chunk" and st = "[]"]
  have stream:
    "queryStream [] ''What is X?'' (Some append_chunk) [] ?n =
       (Some (\<lparr>data = JStr ''Hello, world'', error = JNull\<rparr>, ''Hello, world'', [''Hello, '', ''world'']),
        ?n\<lparr>sent := [stream_request [] ''What is X?'']\<rparr>)"
    by (simp add: queryStream_eq queryStream_try_def serving_def text_response_def ok_def
          read_loop.simps two_chunks_def append_chunk_def)
  have not_null: "\<not> answers_null (respond ?n (length (sent ?n)) req)" for req
    by (simp add: serving_def answers_null_def text_response_def non_json_content_type_def)
  have null: "answers_null (respond ?m (length (sent ?m)) req)" for req
    by (simp add: serving_def answers_null_def json_response_def non_json_content_type_def ok_def)
  have null_upload:
    "\<exists>s t. XhrLoad 200 ''null'' = XhrLoad s t \<and> 200 \<le> s \<and> s < 300 \<and> JSON_parse_sample t = Inr JNull"
    by (simp add: JSON_parse_sample_def)
  from inst [THEN conjunct1] not_null
  have "exactly_one (fst (request [] ''/health'' ?opts ?n))"
    by simp
  moreover from inst [THEN conjunct2, THEN conjunct2, THEN conjunct2, THEN conjunct2, THEN conjunct2,
                      THEN conjunct1] not_null
  have "exactly_one (fst (healthCheck [] ?n))"
    by simp
  moreover from inst_null [THEN conjunct2, THEN conjunct2, THEN conjunct1] null
  have "fst (deleteCollection [] ?m) = \<lparr>data = JNull, error = JNull\<rparr>"
    by simp
  moreover from inst [THEN conjunct2, THEN conjunct2, THEN conjunct2, THEN conjunct2, THEN conjunct2,
                      THEN conjunct2, THEN conjunct2, THEN conjunct1] null_upload
  have "uploadDocument JSON_parse_sample (XhrLoad 200 ''null'') = Resolved \<lparr>data = JNull, error = JNull\<rparr>"
    by auto
  moreover from inst [THEN conjunct2, THEN conjunct2, THEN conjunct2, THEN conjunct2, THEN conjunct2,
                      THEN conjunct2, THEN conjunct2, THEN conjunct2] stream
  have "exactly_one \<lparr>data = JStr ''Hello, world'', error = JNull\<rparr>"
    by blast
  ultimately show ?thesis by blast
qed

theorem request_error_first_present_counterexample:
  "json_result (json_response 400 ''Bad Request'' (JObj [(''error'', JStr [])])) =
     Inr (JObj [(''error'', JStr [])]) \<and>
   fst (request [] ''/query/search''
          \<lparr>http_method = ''POST'', headers = [(''Content-Type'', ''application/json'')],
           body_json = Some (JObj [(''question'', JStr ''What is X?'')])\<rparr>
          (serving (json_response 400 ''Bad Request'' (JObj [(''error'', JStr [])])))) =
     \<lparr>data = JNull, error = JStr ''HTTP 400: Bad Request''\<rparr>"
  by (simp add: request_eq serving_def json_response_def request_try_def non_json_content_type_def
        ok_def error_field_def http_message_def string_of_nat.simps digit_char_def)

text \<open>
  C2, amended: on a non-2xx response that \<open>request\<close> reads as JSON and whose body is
  not \<open>null\<close>, \<open>data\<close> is \<open>null\<close> and the error is the first truthy one of the body's
  \<open>error\<close>, \<open>message\<close> and \<open>detail\<close> fields, and \<open>HTTP <status>: <statusText>\<close> when
  none of them is truthy; in particular the body \<open>{"error": "X"}\<close> with a non-empty
  \<open>X\<close> yields the error \<open>X\<close>.
\<close>

theorem request_error_first_truthy:
  assumes "respond n (length (sent n)) (options.extend opts (http_request.fields (b @ e))) = Inr r"
    and "\<not> ok r" and "\<not> non_json_content_type r" and "json_result r = Inr d" and "d \<noteq> JNull"
  shows "fst (request b e opts n) =
           \<lparr>data = JNull,
            error = (case find truthy (present_fields d) of
                       Some v \<Rightarrow> v
                     | None \<Rightarrow> JStr (http_message r))\<rparr> \<and>
         (\<forall>X. d = JObj [(''error'', JStr X)] \<and> X \<noteq> [] \<longrightarrow>
              fst (request b e opts n) = \<lparr>data = JNull, error = JStr X\<rparr>)"
proof -
  have main: "fst (request b e opts n) =
           \<lparr>data = JNull,
            error = (case find truthy (present_fields d) of
                       Some v \<Rightarrow> v
                     | None \<Rightarrow> JStr (http_message r))\<rparr>"
    using assms by (simp add: request_eq request_try_def error_field_find)
  moreover have "find truthy (present_fields (JObj [(''error'', JStr X)])) = Some (JStr X)"
    if "X \<noteq> []" for X
    using that by (simp add: present_fields_def List.map_filter_def)
  ultimately show ?thesis by auto
qed

theorem request_error_first_truthy_witness:
  "fst (request [] ''/query''
          \<lparr>http_method = ''POST'', headers = [(''Content-Type'', ''application/json'')],
           body_json = Some (JObj [(''question'', JStr ''What is X?'')])\<rparr>
          (serving (json_response 503 ''Service Unavailable'' (JObj [(''error'', JStr ''X'')])))) =
     \<lparr>data = JNull, error = JStr ''X''\<rparr>"
proof -
  let ?r = "json_response 503 ''Service Unavailable'' (JObj [(''error'', JStr ''X'')])"
  let ?opts = "\<lparr>http_method = ''POST'', headers = [(''Content-Type'', ''application/json'')],
           body_json = Some (JObj [(''question'', JStr ''What is X?'')])\<rparr>"
  have 1: "respond (serving ?r) (length (sent (serving ?r)))
             (options.extend ?opts (http_request.fields ([] @ ''/query''))) = Inr ?r"
    by (simp add: serving_def)
  have 2: "\<not> ok ?r" by (simp add: ok_def json_response_def)
  have 3: "\<not> non_json_content_type ?r" by (simp add: non_json_content_type_def json_response_def)
  have 4: "json_result ?r = Inr (JObj [(''error'', JStr ''X'')])" by (simp add: json_response_def)
  have 5: "JObj [(''error'', JStr ''X'')] \<noteq> JNull" by simp
  from request_error_first_truthy [OF 1 2 3 4 5, THEN conjunct2, rule_format, of "''X''"]
  show ?thesis by simp
qed

section \<open>The streaming query\<close>

text \<open>
  C3, as the specification states it: for every successful \<open>queryStream\<close> call the
  concatenation of the strings passed to the callback is the \<open>data\<close> of the Result.
  This fails for a call without a callback, which \<open>if (onChunk)\<close> allows: on a stream of
  two chunks nothing is passed to a callback, and \<open>data\<close> is the whole text.
\<close>

theorem queryStream_without_callback_counterexample:
  "queryStream [] ''What is X?'' (None :: unit callback option) ()
     (serving (text_response 200 ''OK'' ''Hello, world'' two_chunks)) =
     (Some (\<lparr>data = JStr ''Hello, world'', error = JNull\<rparr>, (), []),
      serving (text_response 200 ''OK'' ''Hello, world'' two_chunks)
        \<lparr>sent := [stream_request [] ''What is X?'']\<rparr>) \<and>
   JStr (concat []) \<noteq> JStr ''Hello, world''"
  by (simp add: queryStream_eq queryStream_try_def serving_def text_response_def ok_def
        read_loop.simps two_chunks_def)

text \<open>
  C3, amended: whenever \<open>queryStream\<close>, called with a callback, returns a Result without
  an error, the \<open>data\<close> of the Result is the concatenation, in order, of the strings the
  callback was called with; and the call does return so: on a 2xx response whose stream
  delivers the chunks \<open>cs\<close> and then ends, with a callback that does not throw, the
  callback is called with exactly \<open>cs\<close> and \<open>data\<close> is their concatenation. Called
  without a callback, \<open>queryStream\<close> passes no string to any callback, and on such a
  response it returns the concatenation of \<open>cs\<close> as \<open>data\<close>.
\<close>

theorem queryStream_chunks_concat:
  "(queryStream b q (Some f) st n = (Some (res, st', calls), n') \<and> error res = JNull \<longrightarrow>
      data res = JStr (concat calls)) \<and>
   (respond n (length (sent n)) (stream_request b q) = Inr r \<and> ok r \<and> body r = Some reader \<and>
    (\<forall>i < length cs. reader i = ReadValue (cs ! i)) \<and> reader (length cs) = ReadDone \<and>
    (\<forall>c s. fst (f c s) = None) \<longrightarrow>
      (\<exists>st''. queryStream b q (Some f) st n =
         (Some (\<lparr>data = JStr (concat cs), error = JNull\<rparr>, st'', cs),
          n\<lparr>sent := sent n @ [stream_request b q]\<rparr>))) \<and>
   (queryStream b q None st n = (Some (res, st', calls), n') \<longrightarrow> calls = [] \<and> st' = st) \<and>
   (respond n (length (sent n)) (stream_request b q) = Inr r \<and> ok r \<and> body r = Some reader \<and>
    (\<forall>i < length cs. reader i = ReadValue (cs ! i)) \<and> reader (length cs) = ReadDone \<longrightarrow>
      queryStream b q None st n =
        (Some (\<lparr>data = JStr (concat cs), error = JNull\<rparr>, st, []),
         n\<lparr>sent := sent n @ [stream_request b q]\<rparr>))"
proof (intro conjI impI; (elim conjE)?)
  assume call: "queryStream b q (Some f) st n = (Some (res, st', calls), n')"
    and success: "error res = JNull"
  from call show "data res = JStr (concat calls)"
  proof (cases rule: queryStream_cases)
    case (thrown e)
    with success show ?thesis by simp
  next
    case returned
    from queryStream_try_Inr [OF this] success show ?thesis by simp
  qed
next
  assume r: "respond n (length (sent n)) (stream_request b q) = Inr r" "ok r" "body r = Some reader"
    and chunks: "\<forall>i < length cs. reader i = ReadValue (cs ! i)" "reader (length cs) = ReadDone"
    and total: "\<forall>c s. fst (f c s) = None"
  obtain st'' where "read_loop reader (Some f) 0 [] st [] = Some (Inr ([] @ concat cs), st'', [] @ cs)"
    using read_loop_completes [of cs reader 0 f "[]" st "[]"] chunks total by auto
  with r show "\<exists>st''. queryStream b q (Some f) st n =
         (Some (\<lparr>data = JStr (concat cs), error = JNull\<rparr>, st'', cs),
          n\<lparr>sent := sent n @ [stream_request b q]\<rparr>)"
    by (simp add: queryStream_eq queryStream_try_def)
next
  assume call: "queryStream b q None st n = (Some (res, st', calls), n')"
  from call have "calls = [] \<and> st' = st"
  proof (cases rule: queryStream_cases)
    case (thrown e)
    then show ?thesis by (auto dest: queryStream_try_no_callback)
  next
    case returned
    then show ?thesis by (auto dest: queryStream_try_no_callback)
  qed
  then show "calls = []" and "st' = st" by simp_all
next
  assume r: "respond n (length (sent n)) (stream_request b q) = Inr r" "ok r" "body r = Some reader"
    and chunks: "\<forall>i < length cs. reader i = ReadValue (cs ! i)" "reader (length cs) = ReadDone"
  have "read_loop reader None 0 [] st [] = Some (Inr ([] @ concat cs), st, [])"
    using read_loop_completes_no_callback [of cs reader 0 "[]" st "[]"] chunks by auto
  with r show "queryStream b q None st n =
        (Some (\<lparr>data = JStr (concat cs), error = JNull\<rparr>, st, []),
         n\<lparr>sent := sent n @ [stream_request b q]\<rparr>)"
    by (simp add: queryStream_eq queryStream_try_def)
qed

theorem queryStream_chunks_concat_witness:
  "queryStream [] ''What is X?'' (Some append_chunk) []
     (serving (text_response 200 ''OK'' ''Hello, world'' two_chunks)) =
     (Some (\<lparr>data = JStr ''Hello, world'', error = JNull\<rparr>, ''Hello, world'', [''Hello, '', ''world'']),
      serving (text_response 200 ''OK'' ''Hello, world'' two_chunks)
        \<lparr>sent := [stream_request [] ''What is X?'']\<rparr>) \<and>
   data \<lparr>data = JStr ''Hello, world'', error = JNull\<rparr> = JStr (concat [''Hello, '', ''world'']) \<and>
   queryStream [] ''What is X?'' (None :: string callback option) []
     (serving (text_response 200 ''OK'' ''Hello, world'' two_chunks)) =
     (Some (\<lparr>data = JStr ''Hello, world'', error = JNull\<rparr>, [], []),
      serving (text_response 200 ''OK'' ''Hello, world'' two_chunks)
        \<lparr>sent := [stream_request [] ''What is X?'']\<rparr>)"
proof -
  let ?n = "serving (text_response 200 ''OK'' ''Hello, world'' two_chunks)"
  let ?r = "text_response 200 ''OK'' ''Hello, world'' two_chunks"
  note inst = queryStream_chunks_concat
      [where b = "[]" and q = "''What is X?''" and f = append_chunk and st = "[]" and n = ?n
         and res = "\<lparr>data = JStr ''Hello, world'', error = JNull\<rparr>" and st' = "''Hello, world''"
         and calls = "[''Hello, '', ''world'']"
         and n' = "?n\<lparr>sent := [stream_request [] ''What is X?'']\<rparr>"
         and r = ?r and reader = two_chunks and cs = "[''Hello, '', ''world'']"]
  note inst_none = queryStream_chunks_concat
      [where b = "[]" and q = "''What is X?''" and f = append_chunk and st = "[]" and n = ?n
         and res = "\<lparr>data = JStr ''Hello, world'', error = JNull\<rparr>" and st' = "[]"
         and calls = "[]"
         and n' = "?n\<lparr>sent := [stream_request [] ''What is X?'']\<rparr>"
         and r = ?r and reader = two_chunks and cs = "[''Hello, '', ''world'']"]
  have served: "respond ?n (length (sent ?n)) (stream_request [] ''What is X?'') = Inr ?r"
    "ok ?r" "body ?r = Some two_chunks"
    by (simp_all add: serving_def text_response_def ok_def)
  have chunks: "\<forall>i < length [''Hello, '', ''world'']. two_chunks i = ReadValue ([''Hello, '', ''world''] ! i)"
    "two_chunks (length [''Hello, '', ''world'']) = ReadDone"
    by (auto simp: two_chunks_def less_Suc_eq)
  have total: "\<forall>c s. fst (append_chunk c s) = None"
    by (simp add: append_chunk_def)
  have stream: "queryStream [] ''What is X?'' (Some append_chunk) [] ?n =
      (Some (\<lparr>data = JStr ''Hello, world'', error = JNull\<rparr>, ''Hello, world'', [''Hello, '', ''world'']),
       ?n\<lparr>sent := [stream_request [] ''What is X?'']\<rparr>)"
    by (simp add: queryStream_eq queryStream_try_def serving_def text_response_def ok_def
          read_loop.simps two_chunks_def append_chunk_def)
  note with_callback = inst [THEN conjunct1, rule_format]
  have concat: "data \<lparr>data = JStr ''Hello, world'', error = JNull\<rparr> = JStr (concat [''Hello, '', ''world''])"
    by (rule with_callback) (simp add: stream)
  note without = inst_none [THEN conjunct2, THEN conjunct2, THEN conjunct2, rule_format]
  have "queryStream [] ''What is X?'' (None :: string callback option) [] ?n =
      (Some (\<lparr>data = JStr (concat [''Hello, '', ''world'']), error = JNull\<rparr>, [], []),
       ?n\<lparr>sent := sent ?n @ [stream_request [] ''What is X?'']\<rparr>)"
    by (rule without) (intro conjI served chunks)
  then have none: "queryStream [] ''What is X?'' (None :: string callback option) [] ?n =
      (Some (\<lparr>data = JStr ''Hello, world'', error = JNull\<rparr>, [], []),
       ?n\<lparr>sent := [stream_request [] ''What is X?'']\<rparr>)"
    by (simp add: serving_def)
  from stream concat none show ?thesis by simp
qed

theorem queryStream_error_body_text_counterexample:
  "text_result (text_response 500 ''Internal Server Error'' [] no_chunks) = Inr [] \<and>
   fst (queryStream [] ''What is X?'' (Some append_chunk) []
          (serving (text_response 500 ''Internal Server Error'' [] no_chunks))) =
     Some (\<lparr>data = JNull, error = JStr ''HTTP 500: Internal Server Error''\<rparr>, [], [])"
  by (simp add: queryStream_eq queryStream_try_def serving_def text_response_def ok_def str_or_def
        http_message_def string_of_nat.simps digit_char_def)

text \<open>
  C4, amended: on a non-2xx response \<open>queryStream\<close> returns, without calling the
  callback and without touching the callback's state, a Result with \<open>data\<close> \<open>null\<close> whose
  error is the response body text when that text is not empty, \<open>HTTP <status>:
  <statusText>\<close> when it is empty, and the message of the exception (or the fixed
  streaming message) when reading the body text fails.
\<close>

theorem queryStream_not_ok:
  assumes "respond n (length (sent n)) (stream_request b q) = Inr r" and "\<not> ok r"
  shows "queryStream b q onChunk st n =
           (Some (\<lparr>data = JNull,
                   error = JStr (case text_result r of
                                   Inr errorText \<Rightarrow>
                                     if errorText \<noteq> [] then errorText else http_message r
                                 | Inl e \<Rightarrow> str_or e ''Streaming failed. Please try again.'')\<rparr>,
                  st, []),
            n\<lparr>sent := sent n @ [stream_request b q]\<rparr>)"
  using assms by (simp add: queryStream_eq queryStream_try_def str_or_def split: sum.splits)

theorem queryStream_not_ok_witness:
  "queryStream [] ''What is X?'' (Some append_chunk) []
     (serving (text_response 503 ''Service Unavailable'' ''upstream not ready'' no_chunks)) =
     (Some (\<lparr>data = JNull, error = JStr ''upstream not ready''\<rparr>, [], []),
      serving (text_response 503 ''Service Unavailable'' ''upstream not ready'' no_chunks)
        \<lparr>sent := [stream_request [] ''What is X?'']\<rparr>)"
proof -
  let ?r = "text_response 503 ''Service Unavailable'' ''upstream not ready'' no_chunks"
  have 1: "respond (serving ?r) (length (sent (serving ?r))) (stream_request [] ''What is X?'') = Inr ?r"
    by (simp add: serving_def)
  have 2: "\<not> ok ?r"
    by (simp add: ok_def text_response_def)
  from queryStream_not_ok [OF 1 2, of "Some append_chunk" "[]"] show ?thesis
    by (simp add: text_response_def serving_def)
qed

section \<open>The upload\<close>

text \<open>
  C5. Whatever the terminal event of the upload is, and whatever \<open>JSON.parse\<close> does, the
  promise of \<open>uploadDocument\<close> resolves, with a Result that either has no error or has
  \<open>data\<close> \<open>null\<close> and a truthy error; a network error and an abort resolve it with
  \<open>data\<close> \<open>null\<close> and their fixed messages.
\<close>

theorem uploadDocument_never_rejects:
  "(\<exists>res. uploadDocument JSON_parse ev = Resolved res \<and>
          (error res = JNull \<or> data res = JNull \<and> truthy (error res))) \<and>
   uploadDocument JSON_parse XhrError =
     Resolved \<lparr>data = JNull, error = JStr ''Network error during upload''\<rparr> \<and>
   uploadDocument JSON_parse XhrAbort =
     Resolved \<lparr>data = JNull, error = JStr ''Upload cancelled''\<rparr>"
proof -
  obtain res where res: "uploadDocument JSON_parse ev = Resolved res"
    using uploadDocument_resolves by blast
  from uploadDocument_shape [OF res]
  have "error res = JNull \<or> data res = JNull \<and> truthy (error res)"
    by (auto simp: exactly_one_def split: if_splits)
  with res show ?thesis
    by (simp add: uploadDocument_def)
qed

theorem uploadDocument_never_rejects_witness:
  "uploadDocument JSON_parse_sample (XhrLoad 502 ''<html>Bad Gateway</html>'') =
     Resolved \<lparr>data = JNull, error = JStr ''Failed to parse server response''\<rparr> \<and>
   uploadDocument JSON_parse_sample XhrAbort = Resolved \<lparr>data = JNull, error = JStr ''Upload cancelled''\<rparr>"
proof -
  have "uploadDocument JSON_parse_sample (XhrLoad 502 ''<html>Bad Gateway</html>'') =
     Resolved \<lparr>data = JNull, error = JStr ''Failed to parse server response''\<rparr>"
    by (simp add: uploadDocument_def uploadDocument_load_def JSON_parse_sample_def)
  with uploadDocument_never_rejects [of JSON_parse_sample "XhrLoad 502 ''<html>Bad Gateway</html>''"]
  show ?thesis by simp
qed

text \<open>
  C9. When the response text of a completed upload is not valid JSON, the promise
  resolves with \<open>data\<close> \<open>null\<close> and the error \<open>Failed to parse server response\<close>,
  whatever the status is, a 2xx status included.
\<close>

theorem uploadDocument_unparsable:
  "JSON_parse responseText = Inl e \<Longrightarrow>
   uploadDocument JSON_parse (XhrLoad xhr_status responseText) =
     Resolved \<lparr>data = JNull, error = JStr ''Failed to parse server response''\<rparr>"
  by (simp add: uploadDocument_def uploadDocument_load_def)

theorem uploadDocument_unparsable_witness:
  "uploadDocument JSON_parse_sample (XhrLoad 200 ''<html>OK</html>'') =
     Resolved \<lparr>data = JNull, error = JStr ''Failed to parse server response''\<rparr>"
proof -
  have "JSON_parse_sample ''<html>OK</html>'' = Inl ''Unexpected token''"
    by (simp add: JSON_parse_sample_def)
  from uploadDocument_unparsable
         [of JSON_parse_sample "''<html>OK</html>''" "''Unexpected token''" 200, OF this]
  show ?thesis .
qed

section \<open>The parsing path of \<open>request\<close>\<close>

text \<open>
  C8. When the content-type header is absent (or includes \<open>application/json\<close>),
  \<open>request\<close> decides on \<open>json()\<close> alone, so the text path needs a header that is present
  and does not include \<open>application/json\<close>: a parse failure gives an error Result, a
  parsed body is the data on a 2xx status and the source of the error message
  otherwise. Hence a 2xx response without the header whose body is not JSON gives an
  error Result with \<open>data\<close> \<open>null\<close>, not the body text as data.
\<close>

theorem request_json_path:
  assumes "respond n (length (sent n)) (options.extend opts (http_request.fields (b @ e))) = Inr r"
    and "content_type r = None \<or> (\<exists>ct. content_type r = Some ct \<and> str_includes ct ''application/json'')"
  shows "fst (request b e opts n) =
           (case json_result r of
              Inl x \<Rightarrow>
                \<lparr>data = JNull, error = JStr (str_or x ''Network error. Please check your connection.'')\<rparr>
            | Inr d \<Rightarrow>
                if ok r then \<lparr>data = d, error = JNull\<rparr>
                else \<lparr>data = JNull,
                      error = (case error_field d (http_message r) of
                                 Inl x \<Rightarrow> JStr (str_or x ''Network error. Please check your connection.'')
                               | Inr m \<Rightarrow> m)\<rparr>) \<and>
         (\<forall>x t. ok r \<and> json_result r = Inl x \<and> text_result r = Inr t \<longrightarrow>
            data (fst (request b e opts n)) = JNull \<and> data (fst (request b e opts n)) \<noteq> JStr t \<and>
            error (fst (request b e opts n)) \<noteq> JNull)"
proof -
  have "\<not> non_json_content_type r"
    using assms(2) by (auto simp: non_json_content_type_def)
  with assms(1) have main: "fst (request b e opts n) =
           (case json_result r of
              Inl x \<Rightarrow>
                \<lparr>data = JNull, error = JStr (str_or x ''Network error. Please check your connection.'')\<rparr>
            | Inr d \<Rightarrow>
                if ok r then \<lparr>data = d, error = JNull\<rparr>
                else \<lparr>data = JNull,
                      error = (case error_field d (http_message r) of
                                 Inl x \<Rightarrow> JStr (str_or x ''Network error. Please check your connection.'')
                               | Inr m \<Rightarrow> m)\<rparr>)"
    by (simp add: request_eq request_try_def split: sum.splits)
  then show ?thesis by auto
qed

theorem request_json_path_witness:
  "fst (request [] ''/health'' \<lparr>http_method = ''GET'', headers = [], body_json = None\<rparr>
          (serving bare_response)) =
     \<lparr>data = JNull, error = JStr ''Unexpected token <''\<rparr>"
proof -
  have 1: "respond (serving bare_response) (length (sent (serving bare_response)))
             (options.extend \<lparr>http_method = ''GET'', headers = [], body_json = None\<rparr>
                (http_request.fields ([] @ ''/health''))) = Inr bare_response"
    by (simp add: serving_def)
  have 2: "content_type bare_response = None \<or>
           (\<exists>ct. content_type bare_response = Some ct \<and> str_includes ct ''application/json'')"
    by (simp add: bare_response_def)
  from request_json_path [OF 1 2, THEN conjunct1] show ?thesis
    by (simp add: bare_response_def str_or_def)
qed

section \<open>The health indicator\<close>

text \<open>The four states of the indicator differ in their markup.\<close>

lemma indicator_states_distinct:
  "healthy_html \<noteq> degraded_html \<and> degraded_html \<noteq> unhealthy_html \<and> healthy_html \<noteq> unhealthy_html \<and>
   checking_html \<noteq> healthy_html \<and> checking_html \<noteq> degraded_html \<and> checking_html \<noteq> unhealthy_html"
  by (simp add: healthy_html_def degraded_html_def unhealthy_html_def checking_html_def
        indicator_html_def)

text \<open>
  C6, as the specification states it: a readiness success shows "healthy" when
  \<open>status\<close> is \<open>ready\<close> and \<open>qdrant_connected\<close> is \<open>true\<close>, and "degraded" for any other
  data. This fails for a \<open>qdrant_connected\<close> that is truthy without being \<open>true\<close>: with
  the string \<open>yes\<close> the indicator shows "healthy".
\<close>

theorem health_indicator_counterexample:
  "map_of [(''status'', JStr ''ready''), (''qdrant_connected'', JStr ''yes'')] ''qdrant_connected''
     \<noteq> Some (JBool True) \<and>
   fst (snd (updateHealthIndicator page0
     (serving (json_response 200 ''OK''
        (JObj [(''status'', JStr ''ready''), (''qdrant_connected'', JStr ''yes'')]))))) =
     page0\<lparr>healthStatus_innerHTML := healthy_html\<rparr> \<and>
   healthy_html \<noteq> degraded_html"
  by (simp add: updateHealthIndicator_def readinessCheck_def request_def fetch_def serving_def
        json_response_def request_try_def non_json_content_type_def ok_def apiClient_baseURL_def
        healthy_html_def degraded_html_def indicator_html_def)

text \<open>
  C6, amended: with the Result of the readiness call, an error shows "unhealthy"; no
  error and data other than \<open>null\<close> show "healthy" when \<open>status\<close> is the string
  \<open>ready\<close> and \<open>qdrant_connected\<close> is truthy, and "degraded" otherwise.
\<close>

theorem health_indicator:
  assumes "readinessCheck apiClient_baseURL n = (res, n')"
  shows "(truthy (error res) \<longrightarrow>
            updateHealthIndicator p n =
              (Resolved (), p\<lparr>healthStatus_innerHTML := unhealthy_html\<rparr>, n')) \<and>
         (error res = JNull \<and> data res \<noteq> JNull \<longrightarrow>
            updateHealthIndicator p n =
              (Resolved (),
               p\<lparr>healthStatus_innerHTML :=
                    (if get_prop (data res) ''status'' = Inr (Some (JStr ''ready'')) \<and>
                        (\<exists>v. get_prop (data res) ''qdrant_connected'' = Inr (Some v) \<and> truthy v)
                     then healthy_html else degraded_html)\<rparr>,
               n'))"
proof (cases "data res")
  case JNull
  with assms show ?thesis by (simp add: updateHealthIndicator_def)
next
  case (JObj kvs)
  with assms show ?thesis
    by (cases "map_of kvs ''qdrant_connected''")
       (auto simp: updateHealthIndicator_def healthy_html_def degraded_html_def)
qed (use assms in \<open>auto simp: updateHealthIndicator_def healthy_html_def degraded_html_def\<close>)

theorem health_indicator_witness:
  "updateHealthIndicator page0 offline =
     (Resolved (), page0\<lparr>healthStatus_innerHTML := unhealthy_html\<rparr>,
      offline\<lparr>sent := [\<lparr>http_method = ''GET'', headers = [], body_json = None, url = ''/health/ready''\<rparr>]\<rparr>) \<and>
   updateHealthIndicator page0
     (serving (json_response 200 ''OK'' (JObj [(''status'', JStr ''ready''), (''qdrant_connected'', JBool True)]))) =
     (Resolved (), page0\<lparr>healthStatus_innerHTML := healthy_html\<rparr>,
      serving (json_response 200 ''OK'' (JObj [(''status'', JStr ''ready''), (''qdrant_connected'', JBool True)]))
        \<lparr>sent := [\<lparr>http_method = ''GET'', headers = [], body_json = None, url = ''/health/ready''\<rparr>]\<rparr>)"
proof -
  let ?req = "\<lparr>http_method = ''GET'', headers = [], body_json = None, url = ''/health/ready''\<rparr>"
  let ?d = "JObj [(''status'', JStr ''ready''), (''qdrant_connected'', JBool True)]"
  let ?n = "serving (json_response 200 ''OK'' ?d)"
  have off: "readinessCheck apiClient_baseURL offline =
      (\<lparr>data = JNull, error = JStr ''Failed to fetch''\<rparr>, offline\<lparr>sent := [?req]\<rparr>)"
    by (simp add: readinessCheck_def request_def fetch_def offline_def request_try_def str_or_def
          apiClient_baseURL_def extend_options)
  have on: "readinessCheck apiClient_baseURL ?n = (\<lparr>data = ?d, error = JNull\<rparr>, ?n\<lparr>sent := [?req]\<rparr>)"
    by (simp add: readinessCheck_def request_def fetch_def serving_def request_try_def json_response_def
          non_json_content_type_def ok_def apiClient_baseURL_def extend_options)
  from health_indicator [OF off, of page0] health_indicator [OF on, of page0]
  show ?thesis by simp
qed

text \<open>
  The case the amended statement leaves out: on a 2xx readiness response whose JSON body
  is \<open>null\<close> the read of \<open>data.status\<close> throws, the promise of
  \<open>updateHealthIndicator\<close> rejects and the indicator stays at "Checking...".
\<close>

lemma health_indicator_null_data:
  "fst (updateHealthIndicator page0 (serving (json_response 200 ''OK'' JNull))) =
     Rejected (null_property_message ''status'') \<and>
   fst (snd (updateHealthIndicator page0 (serving (json_response 200 ''OK'' JNull)))) =
     page0\<lparr>healthStatus_innerHTML := checking_html\<rparr>"
  by (simp add: updateHealthIndicator_def readinessCheck_def request_def fetch_def serving_def
        json_response_def request_try_def non_json_content_type_def ok_def apiClient_baseURL_def)

section \<open>The character counter\<close>

text \<open>
  C7. After the input listener has run on a question of length \<open>L\<close>, whatever classes
  the counter had before: it has the class \<open>warning\<close> exactly when \<open>900 < L \<le> 950\<close>, the
  class \<open>danger\<close> exactly when \<open>L > 950\<close>, and neither of the two exactly when
  \<open>L \<le> 900\<close>.
\<close>

theorem char_counter_classes:
  "(let cl = charCounter_classList (initializeQueryForm_input p);
        L = length (questionInput_value p)
    in (''warning'' \<in> set cl \<longleftrightarrow> 900 < L \<and> L \<le> 950) \<and>
       (''danger'' \<in> set cl \<longleftrightarrow> 950 < L) \<and>
       (''warning'' \<notin> set cl \<and> ''danger'' \<notin> set cl \<longleftrightarrow> L \<le> 900))"
  by (auto simp: initializeQueryForm_input_def Let_def classList_add_def classList_remove_def)

theorem char_counter_classes_witness:
  "''warning'' \<in> set (charCounter_classList (initializeQueryForm_input
      (page0\<lparr>questionInput_value := replicate 901 (CHR ''a''),
             charCounter_classList := [''char-counter'', ''danger'']\<rparr>))) \<and>
   ''danger'' \<notin> set (charCounter_classList (initializeQueryForm_input
      (page0\<lparr>questionInput_value := replicate 901 (CHR ''a''),
             charCounter_classList := [''char-counter'', ''danger'']\<rparr>)))"
  using char_counter_classes
    [of "page0\<lparr>questionInput_value := replicate 901 (CHR ''a''),
                charCounter_classList := [''char-counter'', ''danger'']\<rparr>"]
  by (simp add: Let_def)

section \<open>Submitting a question\<close>

text \<open>
  C10. \<open>handleQuerySubmit\<close> validates the trimmed value of the question field and
  sends the same string: when it is not valid, the only effect is the toast with the
  validation error and nothing is sent; when it is valid, exactly one request is sent,
  to \<open>/query/stream\<close> or to \<open>/query\<close>, whose \<open>question\<close> is the trimmed value. The
  trimmed value is the field's value without its leading and trailing white space, so a
  value of white space only is handled as the empty question.
\<close>

theorem handleQuerySubmit_trimmed:
  "(let q = trim (questionInput_value p); v = validateQuestion q in
     (\<not> valid v \<longrightarrow>
        handleQuerySubmit validateQuestion p n =
          (NotValid, p\<lparr>toasts := toasts p @ [(validation_error v, ''error'')]\<rparr>, n)) \<and>
     (valid v \<longrightarrow>
        sent (snd (snd (handleQuerySubmit validateQuestion p n))) =
          sent n @
          [\<lparr>http_method = ''POST'',
            headers = [(''Content-Type'', ''application/json'')],
            body_json = Some (JObj
              [(''question'', JStr q),
               (''include_sources'', JBool (\<not> useStreamingCheck_checked p \<and> includeSourcesCheck_checked p)),
               (''enable_evaluation'', JBool (\<not> useStreamingCheck_checked p \<and> enableEvaluationCheck_checked p))]),
            url = (if useStreamingCheck_checked p then ''/query/stream'' else ''/query'')\<rparr>]) \<and>
     (\<exists>pre post. questionInput_value p = pre @ q @ post \<and>
        (\<forall>c \<in> set pre. is_white_space c) \<and> (\<forall>c \<in> set post. is_white_space c) \<and>
        (q \<noteq> [] \<longrightarrow> \<not> is_white_space (hd q) \<and> \<not> is_white_space (last q))) \<and>
     ((\<forall>c \<in> set (questionInput_value p). is_white_space c) \<longrightarrow> q = []))"
proof -
  let ?q = "trim (questionInput_value p)"
  have invalid: "handleQuerySubmit validateQuestion p n =
          (NotValid, p\<lparr>toasts := toasts p @ [(validation_error (validateQuestion ?q), ''error'')]\<rparr>, n)"
    if "\<not> valid (validateQuestion ?q)"
    using that by (simp add: handleQuerySubmit_def Let_def)
  have valid: "sent (snd (snd (handleQuerySubmit validateQuestion p n))) =
          sent n @
          [\<lparr>http_method = ''POST'',
            headers = [(''Content-Type'', ''application/json'')],
            body_json = Some (JObj
              [(''question'', JStr ?q),
               (''include_sources'', JBool (\<not> useStreamingCheck_checked p \<and> includeSourcesCheck_checked p)),
               (''enable_evaluation'', JBool (\<not> useStreamingCheck_checked p \<and> enableEvaluationCheck_checked p))]),
            url = (if useStreamingCheck_checked p then ''/query/stream'' else ''/query'')\<rparr>]"
    if "valid (validateQuestion ?q)"
    using that
    by (simp add: Let_def handleQuerySubmit_def handleStreamingQuery_def handleStandardQuery_def
          query_def request_sent queryStream_eq stream_request_def apiClient_baseURL_def
          extend_options split_beta)
  from invalid valid trim_decomposition [of "questionInput_value p"]
    trim_white_space [of "questionInput_value p"]
  show ?thesis
    unfolding Let_def by blast
qed

theorem handleQuerySubmit_trimmed_witness:
  "handleQuerySubmit validateQuestion_sample (page0\<lparr>questionInput_value := ''   ''\<rparr>) offline =
     (NotValid,
      page0\<lparr>questionInput_value := ''   '', toasts := [(''Please enter a question'', ''error'')]\<rparr>,
      offline) \<and>
   sent (snd (snd (handleQuerySubmit validateQuestion_sample
                     (page0\<lparr>questionInput_value := ''  What is X? ''\<rparr>) offline))) =
     [\<lparr>http_method = ''POST'',
       headers = [(''Content-Type'', ''application/json'')],
       body_json = Some (JObj [(''question'', JStr ''What is X?''),
                               (''include_sources'', JBool True),
                               (''enable_evaluation'', JBool False)]),
       url = ''/query''\<rparr>]"
proof -
  have blank: "trim ''   '' = []"
    by (simp add: trim_def is_white_space_def)
  have asked: "trim ''  What is X? '' = ''What is X?''"
    by (simp add: trim_def is_white_space_def)
  from handleQuerySubmit_trimmed
      [where validateQuestion = validateQuestion_sample
         and p = "page0\<lparr>questionInput_value := ''   ''\<rparr>" and n = offline]
    handleQuerySubmit_trimmed
      [where validateQuestion = validateQuestion_sample
         and p = "page0\<lparr>questionInput_value := ''  What is X? ''\<rparr>" and n = offline]
    blank asked
  show ?thesis
    by (simp add: Let_def validateQuestion_sample_def page0_def offline_def)
qed

end
